theory Spec2Isabelle
  imports Main "HOL-Library.Word"
begin

unbundle bit_operations_syntax

section \<open>Version numbers of Libevent (compat\_libevent.c)\<close>

text \<open>
  \<^verbatim>\<open>typedef uint32_t le_version_t;\<close>
  A 4-byte number: the first three bytes are major, minor and patchlevel, the
  fourth byte is unused.
\<close>

type_synonym le_version_t = "32 word"

text \<open>
  \<^verbatim>\<open>#define V(major, minor, patch) (((major) << 24) | ((minor) << 16) | ((patch) << 8))\<close>
  on 32-bit unsigned operands: bits shifted beyond bit 31 are lost.
\<close>

definition V :: "32 word \<Rightarrow> 32 word \<Rightarrow> 32 word \<Rightarrow> le_version_t" where
  "V major minor patch = (push_bit 24 major OR push_bit 16 minor OR push_bit 8 patch)"

text \<open>
  \<^verbatim>\<open>#define V_OLD(major, minor, patch) V((major), (minor), (patch)-'a'+1)\<close>
  The patch argument is a character; \<^verbatim>\<open>'a'\<close> is 97. For a character below
  \<^verbatim>\<open>'a'\<close> the C expression is negative before it is shifted; the model keeps its
  two's-complement bits.
\<close>

definition V_OLD :: "32 word \<Rightarrow> 32 word \<Rightarrow> char \<Rightarrow> le_version_t" where
  "V_OLD major minor patch = V major minor (of_nat (of_char patch) - 97 + 1)"

text \<open>\<^verbatim>\<open>#define LE_OLD V(0,0,0)\<close> and \<^verbatim>\<open>#define LE_OTHER V(0,0,99)\<close>\<close>

definition LE_OLD :: le_version_t where
  "LE_OLD = V 0 0 0"

definition LE_OTHER :: le_version_t where
  "LE_OTHER = V 0 0 99"

subsection \<open>The C library's sscanf, for the directives the decoder uses\<close>

text \<open>
  A C string is modelled by the bytes before its terminating NUL.
  \<^verbatim>\<open>isspace\<close> in the C locale: space, \<^verbatim>\<open>\t \n \v \f \r\<close>.
\<close>

definition c_isspace :: "char \<Rightarrow> bool" where
  "c_isspace ch = (of_char ch \<in> {32, 9, 10, 11, 12, 13 :: nat})"

definition c_isdigit :: "char \<Rightarrow> bool" where
  "c_isdigit ch = (48 \<le> (of_char ch :: nat) \<and> (of_char ch :: nat) \<le> 57)"

text \<open>
  Modelled from the spec: \<^verbatim>\<open>TOR_ISALPHA\<close> is declared in compat.h, which is not among
  the sources; the spec calls the accepted character a single letter. Taken here as
  the locale-independent ASCII letters A-Z and a-z.
\<close>

definition TOR_ISALPHA :: "char \<Rightarrow> bool" where
  "TOR_ISALPHA ch =
     ((65 \<le> (of_char ch :: nat) \<and> (of_char ch :: nat) \<le> 90) \<or>
      (97 \<le> (of_char ch :: nat) \<and> (of_char ch :: nat) \<le> 122))"

text \<open>The value of a run of decimal digits, most significant first.\<close>

fun dec_value :: "nat \<Rightarrow> string \<Rightarrow> nat" where
  "dec_value acc [] = acc"
| "dec_value acc (d # ds) = dec_value (10 * acc + (of_char d - 48)) ds"

text \<open>
  The \<^verbatim>\<open>%u\<close> conversion after white space has been skipped: an optional sign, then
  one or more decimal digits. The result is stored into an \<^verbatim>\<open>unsigned\<close>: reduced
  modulo \<open>2 ^ 32\<close>, negated when the sign is \<^verbatim>\<open>-\<close>. \<open>None\<close> is a matching failure.
\<close>

definition scan_u :: "string \<Rightarrow> (32 word \<times> string) option" where
  "scan_u s =
     (let neg = (s \<noteq> [] \<and> hd s = CHR ''-'');
          s1 = (if s \<noteq> [] \<and> (hd s = CHR ''+'' \<or> hd s = CHR ''-'') then tl s else s);
          ds = takeWhile c_isdigit s1;
          rest = dropWhile c_isdigit s1
      in if ds = [] then None
         else Some (if neg then - of_nat (dec_value 0 ds) else of_nat (dec_value 0 ds), rest))"

datatype directive = Fmt_u | Fmt_c | Fmt_lit char

datatype conv = Conv_u "32 word" | Conv_c char

text \<open>
  \<open>sscanf_run fmt s done\<close>: the remaining directives, the remaining input and the
  conversions assigned so far. The result is sscanf's return value with the assigned
  conversions: the number of assignments, or EOF (-1) when the input ends before the
  first conversion.
\<close>

definition scan_stop :: "bool \<Rightarrow> conv list \<Rightarrow> int \<times> conv list" where
  "scan_stop input_failure done =
     (if input_failure \<and> done = [] then (- 1, done) else (int (length done), done))"

fun sscanf_run :: "directive list \<Rightarrow> string \<Rightarrow> conv list \<Rightarrow> int \<times> conv list" where
  "sscanf_run [] s done = scan_stop False done"
| "sscanf_run (Fmt_u # fmt) s done =
     (let s1 = dropWhile c_isspace s
      in if s1 = [] then scan_stop True done
         else (case scan_u s1 of
                 None \<Rightarrow> scan_stop False done
               | Some (n, rest) \<Rightarrow> sscanf_run fmt rest (done @ [Conv_u n])))"
| "sscanf_run (Fmt_c # fmt) s done =
     (case s of
        [] \<Rightarrow> scan_stop True done
      | ch # rest \<Rightarrow> sscanf_run fmt rest (done @ [Conv_c ch]))"
| "sscanf_run (Fmt_lit l # fmt) s done =
     (case s of
        [] \<Rightarrow> scan_stop True done
      | ch # rest \<Rightarrow> if ch = l then sscanf_run fmt rest done else scan_stop False done)"

definition sscanf :: "string \<Rightarrow> directive list \<Rightarrow> int \<times> conv list" where
  "sscanf s fmt = sscanf_run fmt s []"

text \<open>\<^verbatim>\<open>"%u.%u.%u%c%c"\<close> and \<^verbatim>\<open>"%u.%u%c%c"\<close>\<close>

definition fmt_new :: "directive list" where
  "fmt_new = [Fmt_u, Fmt_lit CHR ''.'', Fmt_u, Fmt_lit CHR ''.'', Fmt_u, Fmt_c, Fmt_c]"

definition fmt_old :: "directive list" where
  "fmt_old = [Fmt_u, Fmt_lit CHR ''.'', Fmt_u, Fmt_c, Fmt_c]"

text \<open>
  The output arguments of sscanf: the k-th pointer receives the k-th conversion if it
  was assigned and keeps its previous content otherwise. A local variable that was
  never assigned is \<open>None\<close>.
\<close>

definition out_u :: "conv list \<Rightarrow> nat \<Rightarrow> 32 word option \<Rightarrow> 32 word option" where
  "out_u cs k old = (if k < length cs then (case cs ! k of Conv_u n \<Rightarrow> Some n | Conv_c _ \<Rightarrow> old) else old)"

definition out_c :: "conv list \<Rightarrow> nat \<Rightarrow> char option \<Rightarrow> char option" where
  "out_c cs k old = (if k < length cs then (case cs ! k of Conv_c ch \<Rightarrow> Some ch | Conv_u _ \<Rightarrow> old) else old)"

subsection \<open>tor\_decode\_libevent\_version\<close>

text \<open>The test after the first sscanf, on its return value and the locals c and e.\<close>

definition new_format_ok :: "int \<Rightarrow> char option \<Rightarrow> char option \<Rightarrow> bool" where
  "new_format_ok fields c e =
     (fields = 3 \<or>
      ((fields = 4 \<or> fields = 5) \<and> (c = Some CHR ''-'' \<or> c = Some CHR ''_'')) \<or>
      (fields = 5 \<and> TOR_ISALPHA (the c) \<and> (e = Some CHR ''-'' \<or> e = Some CHR ''_'')))"

definition tor_decode_libevent_version :: "string \<Rightarrow> le_version_t" where
  "tor_decode_libevent_version v =
     (let (fields, cs) = sscanf v fmt_new;
          major = out_u cs 0 None; minor = out_u cs 1 None; patchlevel = out_u cs 2 None;
          c = out_c cs 3 None; e = out_c cs 4 None
      in if new_format_ok fields c e
         then V (the major) (the minor) (the patchlevel)
         else
           (let (fields, cs) = sscanf v fmt_old;
                major = out_u cs 0 major; minor = out_u cs 1 minor;
                c = out_c cs 2 c
            in if fields = 3 \<and> TOR_ISALPHA (the c) then V_OLD (the major) (the minor) (the c)
               else if fields = 2 then V (the major) (the minor) 0
               else LE_OTHER))"

subsection \<open>le\_versions\_compatibility\<close>

definition le_versions_compatibility :: "le_version_t \<Rightarrow> int" where
  "le_versions_compatibility v =
     (if v = LE_OTHER then 0
      else if v < V_OLD 1 0 CHR ''c'' then 1
      else if v < V 1 4 0 then 2
      else if v < V 1 4 99 then 3
      else if v < V 2 0 1 then 4
      else 5)"

subsection \<open>tor\_get\_libevent\_version\<close>

text \<open>
  What the linked Libevent offers, as the configuration macros say:
  \<^verbatim>\<open>HAVE_EVENT_GET_VERSION_NUMBER\<close> (with the results of \<^verbatim>\<open>event_get_version()\<close> and
  \<^verbatim>\<open>event_get_version_number()\<close>), only \<^verbatim>\<open>HAVE_EVENT_GET_VERSION\<close> (with the result
  of \<^verbatim>\<open>event_get_version()\<close>), or neither.
\<close>

datatype libevent_api =
    Have_version_number string le_version_t
  | Have_version string
  | No_version

fun tor_get_libevent_version :: "libevent_api \<Rightarrow> string \<times> le_version_t" where
  "tor_get_libevent_version (Have_version_number v r) = (v, r)"
| "tor_get_libevent_version (Have_version v) = (v, tor_decode_libevent_version v)"
| "tor_get_libevent_version No_version = (''pre-1.0c'', LE_OLD)"

section \<open>Log records\<close>

datatype log_severity = LOG_DEBUG | LOG_INFO | LOG_NOTICE | LOG_WARN | LOG_ERR

datatype log_domain = LD_GENERAL | LD_NOCB_NET | LD_NOCB_GENERAL

text \<open>The format string of each log call of the file, with its arguments.\<close>

datatype log_text =
    Message_from_libevent string
  | Warning_from_libevent string
  | Error_from_libevent string
  | Message_n_from_libevent int string
  | Often_crashes string string
  | Serious_bugs string string
  | Minor_bugs string string
  | Very_slow string string
  | Compiled_with_headers string string
  | Will_almost_certainly_crash
  | Think_binary_compatible
  | Unable_to_initialize
  | Initialized_libevent string string
  | Initialized_old_libevent
  | Very_old_libevent

datatype log_entry = Log log_severity log_domain log_text

section \<open>tor\_check\_libevent\_version\<close>

text \<open>The platform the file is compiled for, as the preprocessor tests see it.\<close>

datatype platform = BSD_variant | Mac_OS_X | Other_platform

record badness_flags =
  buggy :: bool
  iffy :: bool
  slow :: bool
  thread_unsafe :: bool

definition no_flags :: badness_flags where
  "no_flags = \<lparr>buggy = False, iffy = False, slow = False, thread_unsafe = False\<rparr>"

text \<open>The chain of \<^verbatim>\<open>strcmp\<close> tests on the method name.\<close>

definition method_flags :: "string \<Rightarrow> le_version_t \<Rightarrow> badness_flags" where
  "method_flags m version =
     (if m = ''kqueue'' then
        (if version < V_OLD 1 1 CHR ''b'' then no_flags\<lparr>buggy := True\<rparr> else no_flags)
      else if m = ''epoll'' then
        (if version < V 1 1 0 then no_flags\<lparr>iffy := True\<rparr> else no_flags)
      else if m = ''poll'' then
        (let f = (if version < V_OLD 1 0 CHR ''e'' then no_flags\<lparr>buggy := True\<rparr> else no_flags)
         in if version < V 1 1 0 then f\<lparr>slow := True\<rparr> else f)
      else if m = ''select'' then
        (if version < V 1 1 0 then no_flags\<lparr>slow := True\<rparr> else no_flags)
      else if m = ''win32'' then
        (if version < V_OLD 1 1 CHR ''b'' then no_flags\<lparr>buggy := True\<rparr> else no_flags)
      else no_flags)"

text \<open>
  The platform-conditional block: on the BSDs and on Mac OS X a server with a version
  before 1.3b is thread-unsafe. The result is the flags and \<^verbatim>\<open>sad_os\<close>.
\<close>

definition platform_flags ::
  "platform \<Rightarrow> bool \<Rightarrow> le_version_t \<Rightarrow> badness_flags \<Rightarrow> badness_flags \<times> string" where
  "platform_flags plat server version f =
     (case plat of
        BSD_variant \<Rightarrow>
          if server \<and> version < V_OLD 1 3 CHR ''b''
          then (f\<lparr>thread_unsafe := True\<rparr>, ''BSD variants'') else (f, [])
      | Mac_OS_X \<Rightarrow>
          if server \<and> version < V_OLD 1 3 CHR ''b''
          then (f\<lparr>thread_unsafe := True\<rparr>, ''Mac OS X'') else (f, [])
      | Other_platform \<Rightarrow> (f, []))"

text \<open>The final chain: the warning logged and \<^verbatim>\<open>*badness_out\<close> (\<open>None\<close> is NULL).\<close>

definition report_badness ::
  "badness_flags \<Rightarrow> bool \<Rightarrow> string \<Rightarrow> string \<Rightarrow> string \<Rightarrow> log_entry list \<times> string option" where
  "report_badness f server m v sad_os =
     (if thread_unsafe f then ([Log LOG_WARN LD_GENERAL (Often_crashes v sad_os)], Some ''BROKEN'')
      else if buggy f then ([Log LOG_WARN LD_GENERAL (Serious_bugs m v)], Some ''BROKEN'')
      else if iffy f then ([Log LOG_WARN LD_GENERAL (Minor_bugs m v)], Some ''BUGGY'')
      else if slow f \<and> server then ([Log LOG_WARN LD_GENERAL (Very_slow v m)], Some ''SLOW'')
      else ([], None))"

text \<open>The four flags as they stand when the final chain is entered.\<close>

definition check_flags :: "platform \<Rightarrow> libevent_api \<Rightarrow> string \<Rightarrow> bool \<Rightarrow> badness_flags" where
  "check_flags plat api m server =
     (let (v, version) = tor_get_libevent_version api
      in fst (platform_flags plat server version (method_flags m version)))"

definition tor_check_libevent_version ::
  "platform \<Rightarrow> libevent_api \<Rightarrow> string \<Rightarrow> bool \<Rightarrow> log_entry list \<times> string option" where
  "tor_check_libevent_version plat api m server =
     (let (v, version) = tor_get_libevent_version api;
          (f, sad_os) = platform_flags plat server version (method_flags m version)
      in report_badness f server m v sad_os)"

section \<open>tor\_check\_libevent\_header\_compatibility\<close>

text \<open>
  The branch compiled when both \<^verbatim>\<open>HEADER_VERSION\<close> and \<^verbatim>\<open>HAVE_EVENT_GET_VERSION\<close> are
  defined; the arguments are \<^verbatim>\<open>HEADER_VERSION\<close> and the result of
  \<^verbatim>\<open>event_get_version()\<close>. \<^verbatim>\<open>strcmp\<close> is nonzero exactly when the strings differ.
\<close>

definition tor_check_libevent_header_compatibility :: "string \<Rightarrow> string \<Rightarrow> log_entry list" where
  "tor_check_libevent_header_compatibility header_version runtime_version =
     (if header_version \<noteq> runtime_version then
        (let v1 = tor_decode_libevent_version header_version;
             v2 = tor_decode_libevent_version runtime_version;
             compat1 = le_versions_compatibility v1;
             compat2 = le_versions_compatibility v2;
             verybad = (compat1 \<noteq> compat2)
         in [Log (if verybad then LOG_WARN else LOG_NOTICE) LD_GENERAL
               (Compiled_with_headers header_version runtime_version),
             if verybad then Log LOG_WARN LD_GENERAL Will_almost_certainly_crash
             else Log LOG_INFO LD_GENERAL Think_binary_compatible])
      else [])"

section \<open>The log callback\<close>

text \<open>
  \<^verbatim>\<open>strstr(msg, suppress_msg)\<close> is non-NULL exactly when the needle occurs in the
  haystack as a contiguous run of bytes.
\<close>

fun c_strstr :: "string \<Rightarrow> string \<Rightarrow> bool" where
  "c_strstr [] needle = (needle = [])"
| "c_strstr (h # t) needle = (take (length needle) (h # t) = needle \<or> c_strstr t needle)"

text \<open>
  \<^verbatim>\<open>strlcpy(dst, src, size)\<close> with \<open>size > 0\<close>: the destination receives at most
  \<open>size - 1\<close> bytes and a terminator; the result is the length of the source.
\<close>

definition strlcpy :: "string \<Rightarrow> nat \<Rightarrow> string \<times> nat" where
  "strlcpy src sz = (take (sz - 1) src, length src)"

text \<open>The severities of Libevent's log callback, from its header.\<close>

definition EVENT_LOG_DEBUG :: int where "EVENT_LOG_DEBUG = 0"

definition EVENT_LOG_MSG :: int where "EVENT_LOG_MSG = 1"

definition EVENT_LOG_WARN :: int where "EVENT_LOG_WARN = 2"

definition EVENT_LOG_ERR :: int where "EVENT_LOG_ERR = 3"

text \<open>
  The buffer after the copy and the newline test: storing a NUL at index \<open>n - 1\<close>
  ends the string there.
\<close>

definition callback_buf :: "string \<Rightarrow> string" where
  "callback_buf msg =
     (let (buf, n) = strlcpy msg 1024
      in if n \<noteq> 0 \<and> n < 1024 \<and> buf ! (n - 1) = CHR 0x0A then take (n - 1) buf else buf)"

definition libevent_logging_callback :: "string option \<Rightarrow> int \<Rightarrow> string \<Rightarrow> log_entry list" where
  "libevent_logging_callback suppress_msg severity msg =
     (if (case suppress_msg of None \<Rightarrow> False | Some s \<Rightarrow> c_strstr msg s) then []
      else
        (let buf = callback_buf msg
         in if severity = EVENT_LOG_DEBUG then [Log LOG_DEBUG LD_NOCB_NET (Message_from_libevent buf)]
            else if severity = EVENT_LOG_MSG then [Log LOG_INFO LD_NOCB_NET (Message_from_libevent buf)]
            else if severity = EVENT_LOG_WARN then [Log LOG_WARN LD_NOCB_GENERAL (Warning_from_libevent buf)]
            else if severity = EVENT_LOG_ERR then [Log LOG_ERR LD_NOCB_GENERAL (Error_from_libevent buf)]
            else [Log LOG_WARN LD_NOCB_GENERAL (Message_n_from_libevent severity buf)]))"

text \<open>The text handed to the logger as the \<^verbatim>\<open>%s\<close> argument.\<close>

fun forwarded_text :: "log_entry \<Rightarrow> string" where
  "forwarded_text (Log _ _ (Message_from_libevent b)) = b"
| "forwarded_text (Log _ _ (Warning_from_libevent b)) = b"
| "forwarded_text (Log _ _ (Error_from_libevent b)) = b"
| "forwarded_text (Log _ _ (Message_n_from_libevent _ b)) = b"
| "forwarded_text (Log _ _ _) = []"

section \<open>The event base\<close>

type_synonym addr = nat

text \<open>
  How a call can end without returning: a failed \<^verbatim>\<open>tor_assert\<close>, \<^verbatim>\<open>exit(n)\<close> (with
  the records logged just before it), or an access through a pointer to memory that is
  not (or no longer) allocated, which C leaves undefined.
\<close>

datatype failure = Assertion_failed | Process_exit int "log_entry list" | Invalid_access

text \<open>
  \<^verbatim>\<open>struct event_base *the_event_base = NULL;\<close> with the process environment and the
  log. A nullable pointer is an \<open>addr option\<close>, \<open>None\<close> for NULL.
\<close>

record loop_state =
  the_event_base :: "addr option"
  environ :: "(string \<times> string) list"
  log_out :: "log_entry list"

definition startup :: loop_state where
  "startup = \<lparr>the_event_base = None, environ = [], log_out = []\<rparr>"

text \<open>\<^verbatim>\<open>event_get_version()\<close>, where the library has it.\<close>

fun event_get_version :: "libevent_api \<Rightarrow> string option" where
  "event_get_version (Have_version_number v r) = Some v"
| "event_get_version (Have_version v) = Some v"
| "event_get_version No_version = None"

text \<open>
  \<open>new_base\<close> is what \<^verbatim>\<open>event_base_new_with_config\<close> (or \<^verbatim>\<open>event_init\<close>) returns;
  \<open>method\<close> is the name of the backend, \<open>None\<close> when \<^verbatim>\<open>HAVE_EVENT_GET_METHOD\<close> is not
  defined; \<open>kqueue_broken\<close> is \<^verbatim>\<open>MACOSX_KQUEUE_IS_BROKEN\<close>.
\<close>

definition tor_libevent_initialize ::
  "platform \<Rightarrow> bool \<Rightarrow> libevent_api \<Rightarrow> addr option \<Rightarrow> string option \<Rightarrow> loop_state
     \<Rightarrow> failure + loop_state" where
  "tor_libevent_initialize plat kqueue_broken api new_base method st =
     (if the_event_base st \<noteq> None then Inl Assertion_failed
      else
        (let st1 = (if plat = Mac_OS_X \<and>
                       (kqueue_broken \<or> snd (tor_get_libevent_version api) < V_OLD 1 1 CHR ''b'')
                    then st\<lparr>environ := (''EVENT_NOKQUEUE'', ''1'') #
                                         filter (\<lambda>kv. fst kv \<noteq> ''EVENT_NOKQUEUE'') (environ st)\<rparr>
                    else st);
             st2 = st1\<lparr>the_event_base := new_base\<rparr>
         in if the_event_base st2 = None
            then Inl (Process_exit 1 [Log LOG_ERR LD_GENERAL Unable_to_initialize])
            else Inr (st2\<lparr>log_out := log_out st2 @
                         (case (event_get_version api, method) of
                            (Some v, Some m) \<Rightarrow>
                              [Log LOG_NOTICE LD_GENERAL (Initialized_libevent v m)]
                          | _ \<Rightarrow>
                              [Log LOG_NOTICE LD_GENERAL Initialized_old_libevent,
                               Log LOG_WARN LD_GENERAL Very_old_libevent])\<rparr>)))"

text \<open>
  \<^verbatim>\<open>struct event_base *tor_libevent_get_base(void) { return the_event_base; }\<close>
  The result type has room for a failure, so that the absence of one can be stated.
\<close>

definition tor_libevent_get_base :: "loop_state \<Rightarrow> failure + addr option" where
  "tor_libevent_get_base st = Inr (the_event_base st)"

section \<open>Periodic timers\<close>

record timeval =
  tv_sec :: int
  tv_usec :: int

text \<open>
  What the model keeps of a \<^verbatim>\<open>struct event\<close>: its base, whether it was created with
  \<^verbatim>\<open>EV_PERSIST\<close>, the callback argument, and the timeout it is registered with
  (\<open>None\<close> when it is not pending).
\<close>

record event =
  ev_base :: addr
  ev_persist :: bool
  ev_arg :: addr
  ev_pending :: "timeval option"

text \<open>
  \<^verbatim>\<open>struct periodic_timer_t { struct event *ev; void (*cb)(...); void *data; struct timeval tv; }\<close>
  The field \<^verbatim>\<open>tv\<close> exists only without \<^verbatim>\<open>HAVE_PERIODIC\<close>; with it the model leaves
  the field zero and never reads it. A callback is named by a number.
\<close>

record periodic_timer_t =
  timer_ev :: "addr option"
  timer_cb :: "nat option"
  timer_data :: nat
  timer_tv :: timeval

definition zero_timer :: periodic_timer_t where
  "zero_timer = \<lparr>timer_ev = None, timer_cb = None, timer_data = 0,
                 timer_tv = \<lparr>tv_sec = 0, tv_usec = 0\<rparr>\<rparr>"

datatype action =
    Act_event_add addr timeval
  | Act_event_del addr
  | Act_callback nat addr nat

text \<open>
  The store: the allocated timers and events by address, the next free address, and
  the calls made to Libevent and to user callbacks, in order.
\<close>

record world =
  timers :: "addr \<Rightarrow> periodic_timer_t option"
  events :: "addr \<Rightarrow> event option"
  next_addr :: addr
  trace :: "action list"

definition empty_world :: world where
  "empty_world = \<lparr>timers = (\<lambda>_. None), events = (\<lambda>_. None), next_addr = 1, trace = []\<rparr>"

text \<open>
  Modelled from the spec: \<^verbatim>\<open>tor_malloc_zero\<close> and \<^verbatim>\<open>tor_free\<close> are declared in util.h,
  which is not among the sources. The spec has a timer created with its memory and
  destroyed by releasing it: the first allocates a zeroed timer at a fresh address, the
  second releases the timer at the address given.
\<close>

definition tor_malloc_zero :: "world \<Rightarrow> addr \<times> world" where
  "tor_malloc_zero w =
     (next_addr w,
      w\<lparr>timers := (timers w)(next_addr w \<mapsto> zero_timer), next_addr := Suc (next_addr w)\<rparr>)"

definition tor_free :: "world \<Rightarrow> addr \<Rightarrow> world" where
  "tor_free w p = w\<lparr>timers := (timers w)(p := None)\<rparr>"

text \<open>\<^verbatim>\<open>event_add(ev, tv)\<close>: (re-)registers the event with the timeout.\<close>

definition event_add :: "world \<Rightarrow> addr \<Rightarrow> timeval \<Rightarrow> failure + world" where
  "event_add w e t =
     (case events w e of
        None \<Rightarrow> Inl Invalid_access
      | Some x \<Rightarrow> Inr (w\<lparr>events := (events w)(e \<mapsto> x\<lparr>ev_pending := Some t\<rparr>),
                        trace := trace w @ [Act_event_add e t]\<rparr>))"

text \<open>
  \<^verbatim>\<open>tor_event_new(base, -1, PERIODIC_FLAGS, periodic_timer_cb, timer)\<close>: \<open>alloc_ok\<close>
  says whether Libevent could create the event.
\<close>

definition tor_event_new :: "bool \<Rightarrow> world \<Rightarrow> addr \<Rightarrow> bool \<Rightarrow> addr \<Rightarrow> addr option \<times> world" where
  "tor_event_new alloc_ok w base persist arg =
     (if alloc_ok
      then (Some (next_addr w),
            w\<lparr>events := (events w)(next_addr w \<mapsto>
                  \<lparr>ev_base = base, ev_persist = persist, ev_arg = arg, ev_pending = None\<rparr>),
              next_addr := Suc (next_addr w)\<rparr>)
      else (None, w))"

text \<open>\<^verbatim>\<open>tor_event_free(ev)\<close>: \<^verbatim>\<open>event_del\<close>, then the event's memory is released.\<close>

definition tor_event_free :: "world \<Rightarrow> addr option \<Rightarrow> failure + world" where
  "tor_event_free w e =
     (case e of
        None \<Rightarrow> Inl Invalid_access
      | Some a \<Rightarrow>
          (case events w a of
             None \<Rightarrow> Inl Invalid_access
           | Some _ \<Rightarrow> Inr (w\<lparr>events := (events w)(a := None),
                             trace := trace w @ [Act_event_del a]\<rparr>)))"

text \<open>
  \<open>periodic_timer_cb have_periodic user w arg\<close>: \<open>have_periodic\<close> is whether
  \<^verbatim>\<open>HAVE_PERIODIC\<close> is defined, \<open>user c p d\<close> is what the user callback \<open>c\<close> does to
  the store when called with the timer \<open>p\<close> and the data \<open>d\<close>.
\<close>

definition periodic_timer_cb ::
  "bool \<Rightarrow> (nat \<Rightarrow> addr \<Rightarrow> nat \<Rightarrow> world \<Rightarrow> failure + world) \<Rightarrow> world \<Rightarrow> addr \<Rightarrow> failure + world" where
  "periodic_timer_cb have_periodic user w arg =
     (case timers w arg of
        None \<Rightarrow> Inl Invalid_access
      | Some timer \<Rightarrow>
          (case (if \<not> have_periodic
                 then (case timer_ev timer of
                         None \<Rightarrow> Inl Invalid_access
                       | Some e \<Rightarrow> event_add w e (timer_tv timer))
                 else Inr w) of
             Inl f \<Rightarrow> Inl f
           | Inr w1 \<Rightarrow>
               (case timer_cb timer of
                  None \<Rightarrow> Inl Invalid_access
                | Some c \<Rightarrow>
                    user c arg (timer_data timer)
                      (w1\<lparr>trace := trace w1 @ [Act_callback c arg (timer_data timer)]\<rparr>))))"

text \<open>
  \<open>periodic_timer_new have_periodic alloc_ok w base t c d\<close>: the result is the store
  and the new timer, \<open>None\<close> for NULL.
\<close>

definition periodic_timer_new ::
  "bool \<Rightarrow> bool \<Rightarrow> world \<Rightarrow> addr option \<Rightarrow> timeval option \<Rightarrow> nat option \<Rightarrow> nat
     \<Rightarrow> failure + (world \<times> addr option)" where
  "periodic_timer_new have_periodic alloc_ok w base t c d =
     (case (base, t, c) of
        (Some b, Some tval, Some cbk) \<Rightarrow>
          (let (p, w1) = tor_malloc_zero w;
               (e, w2) = tor_event_new alloc_ok w1 b have_periodic p
           in case e of
                None \<Rightarrow> Inr (tor_free w2 p, None)
              | Some ea \<Rightarrow>
                  (let timer = zero_timer\<lparr>timer_ev := Some ea, timer_cb := Some cbk, timer_data := d\<rparr>;
                       timer = (if \<not> have_periodic then timer\<lparr>timer_tv := tval\<rparr> else timer);
                       w3 = w2\<lparr>timers := (timers w2)(p \<mapsto> timer)\<rparr>
                   in case event_add w3 ea tval of
                        Inl f \<Rightarrow> Inl f
                      | Inr w4 \<Rightarrow> Inr (w4, Some p)))
      | _ \<Rightarrow> Inl Assertion_failed)"

text \<open>
  \<^verbatim>\<open>periodic_timer_free(timer)\<close>: returns at once on NULL; otherwise reads
  \<^verbatim>\<open>timer->ev\<close>, frees the event and then the timer.
\<close>

definition periodic_timer_free :: "world \<Rightarrow> addr option \<Rightarrow> failure + world" where
  "periodic_timer_free w timer =
     (case timer of
        None \<Rightarrow> Inr w
      | Some p \<Rightarrow>
          (case timers w p of
             None \<Rightarrow> Inl Invalid_access
           | Some t \<Rightarrow>
               (case tor_event_free w (timer_ev t) of
                  Inl f \<Rightarrow> Inl f
                | Inr w1 \<Rightarrow> Inr (tor_free w1 p))))"

text \<open>Two calls of \<^verbatim>\<open>periodic_timer_free\<close> with the same pointer, one after the other.\<close>

definition free_twice :: "world \<Rightarrow> addr option \<Rightarrow> failure + world" where
  "free_twice w timer =
     (case periodic_timer_free w timer of
        Inl f \<Rightarrow> Inl f
      | Inr w1 \<Rightarrow> periodic_timer_free w1 timer)"

section \<open>Notions the properties are stated with\<close>

text \<open>
  The two acceptance tests of \<open>tor_decode_libevent_version\<close>, each on the result of
  its own sscanf: the new format \<^verbatim>\<open>"1.4.11-stable"\<close>, and the old format
  \<^verbatim>\<open>"1.3e"\<close> or \<^verbatim>\<open>"1.3"\<close>.
\<close>

definition new_format_accepts :: "string \<Rightarrow> bool" where
  "new_format_accepts v =
     (let (fields, cs) = sscanf v fmt_new
      in new_format_ok fields (out_c cs 3 None) (out_c cs 4 None))"

definition old_format_accepts :: "string \<Rightarrow> bool" where
  "old_format_accepts v =
     (let (fields, cs) = sscanf v fmt_old
      in (fields = 3 \<and> TOR_ISALPHA (the (out_c cs 2 None))) \<or> fields = 2)"

definition unparseable :: "string \<Rightarrow> bool" where
  "unparseable v = (\<not> new_format_accepts v \<and> \<not> old_format_accepts v)"

text \<open>
  A version triple written the way Libevent writes it, \<^verbatim>\<open>MAJOR.MINOR.PATCH\<close> in
  decimal, and the precedence of triples: major first, then minor, then patch.
\<close>

fun digits_of :: "nat \<Rightarrow> string" where
  "digits_of n =
     (if n < 10 then [char_of (48 + n)]
      else digits_of (n div 10) @ [char_of (48 + n mod 10)])"

definition version_string :: "nat \<Rightarrow> nat \<Rightarrow> nat \<Rightarrow> string" where
  "version_string a b c = digits_of a @ ''.'' @ digits_of b @ ''.'' @ digits_of c"

definition earlier :: "nat \<times> nat \<times> nat \<Rightarrow> nat \<times> nat \<times> nat \<Rightarrow> bool" where
  "earlier x y =
     (case (x, y) of
        ((a, b, c), (a', b', c')) \<Rightarrow> a < a' \<or> (a = a' \<and> (b < b' \<or> (b = b' \<and> c < c'))))"

text \<open>
  The classifications of the specification, and the one a run of
  \<open>tor_check_libevent_version\<close> surfaces: the warning it logs says which.
\<close>

datatype bug_class = No_bug | Slow | Iffy | Buggy | Thread_unsafe

text \<open>
  The most severe of the conditions that were flagged, in the order thread-unsafe,
  buggy, iffy, slow, none: this definition follows the words of the specification.
\<close>

definition most_severe :: "badness_flags \<Rightarrow> bug_class" where
  "most_severe f =
     (if thread_unsafe f then Thread_unsafe
      else if buggy f then Buggy
      else if iffy f then Iffy
      else if slow f then Slow
      else No_bug)"

fun surfaced :: "log_entry list \<Rightarrow> bug_class" where
  "surfaced [Log _ _ (Often_crashes _ _)] = Thread_unsafe"
| "surfaced [Log _ _ (Serious_bugs _ _)] = Buggy"
| "surfaced [Log _ _ (Minor_bugs _ _)] = Iffy"
| "surfaced [Log _ _ (Very_slow _ _)] = Slow"
| "surfaced _ = No_bug"

text \<open>
  The bucket function as the specification words it, with the four boundaries only:
  below 1.0c, below 1.4.0, below 1.4.99, below 2.0.1, otherwise 5.
\<close>

definition spec_era :: "le_version_t \<Rightarrow> int" where
  "spec_era v =
     (if v < V_OLD 1 0 CHR ''c'' then 1
      else if v < V 1 4 0 then 2
      else if v < V 1 4 99 then 3
      else if v < V 2 0 1 then 4
      else 5)"

text \<open>What the header check tells the user, read off the records it logs.\<close>

datatype advisory = No_advisory | Low_severity | High_severity

definition advisory_of :: "log_entry list \<Rightarrow> advisory" where
  "advisory_of logs =
     (if logs = [] then No_advisory
      else if Log LOG_WARN LD_GENERAL Will_almost_certainly_crash \<in> set logs then High_severity
      else Low_severity)"

text \<open>Whether the callback drops the message: the test before the copy.\<close>

definition suppressed :: "string option \<Rightarrow> string \<Rightarrow> bool" where
  "suppressed suppress_msg msg = (case suppress_msg of None \<Rightarrow> False | Some s \<Rightarrow> c_strstr msg s)"

text \<open>A store with one timer, made by \<open>periodic_timer_new\<close> without \<^verbatim>\<open>HAVE_PERIODIC\<close>.\<close>

definition tenth_second :: timeval where
  "tenth_second = \<lparr>tv_sec = 0, tv_usec = 100000\<rparr>"

definition one_timer_world :: world where
  "one_timer_world =
     (case periodic_timer_new False True empty_world (Some 7) (Some tenth_second) (Some 3) 42 of
        Inr (w, _) \<Rightarrow> w
      | Inl _ \<Rightarrow> empty_world)"

section \<open>Facts about the version encoding\<close>

declare digits_of.simps [simp del]

lemma bit_byte: "(x::nat) < 256 \<Longrightarrow> bit x k \<Longrightarrow> k < 8"
proof (rule ccontr)
  assume a: "x < 256" "bit x k" "\<not> k < 8"
  then have "(2::nat) ^ 8 \<le> 2 ^ k" by (intro power_increasing) simp_all
  then have "x div 2 ^ k = 0" using a(1) by simp
  then show False using a(2) by (simp add: bit_iff_odd)
qed

lemma V_nat:
  assumes "a < 256" "b < 256" "c < 256"
  shows "(push_bit 24 a OR push_bit 16 b OR push_bit 8 c :: nat) = a * 2^24 + b * 2^16 + c * 2^8"
proof -
  have low: "(push_bit 16 b OR push_bit 8 c :: nat) = push_bit 16 b + push_bit 8 c"
    by (rule disjunctive_add_eq_or [symmetric], rule bit_eqI)
       (use assms in \<open>auto simp add: bit_simps dest: bit_byte\<close>)
  have high: "(push_bit 24 a OR (push_bit 16 b OR push_bit 8 c) :: nat) =
              push_bit 24 a + (push_bit 16 b OR push_bit 8 c)"
    by (rule disjunctive_add_eq_or [symmetric], rule bit_eqI)
       (use assms in \<open>auto simp add: bit_simps dest: bit_byte\<close>)
  show ?thesis using low high by (simp add: push_bit_eq_mult or.assoc)
qed

lemma V_of_nat:
  "V (of_nat a) (of_nat b) (of_nat c) = of_nat (push_bit 24 a OR push_bit 16 b OR push_bit 8 c)"
  by (simp add: V_def of_nat_or_eq of_nat_push_bit)

lemma unat_V:
  assumes "a < 256" "b < 256" "c < 256"
  shows "unat (V (of_nat a) (of_nat b) (of_nat c)) = a * 2^24 + b * 2^16 + c * 2^8"
proof -
  define N where "N = a * 2^24 + b * 2^16 + c * 2^8"
  have lt: "N < 2^32" using assms by (simp add: N_def)
  have "V (of_nat a) (of_nat b) (of_nat c) = (of_nat N :: 32 word)"
    by (simp only: V_of_nat V_nat[OF assms] N_def)
  then have "unat (V (of_nat a) (of_nat b) (of_nat c)) = N mod 2^32"
    by (simp add: unat_of_nat)
  then show ?thesis using lt by (simp add: N_def)
qed

lemma V_less_iff:
  assumes "a < 256" "b < 256" "c < 256" "a' < 256" "b' < 256" "c' < 256"
  shows "V (of_nat a) (of_nat b) (of_nat c) < V (of_nat a') (of_nat b') (of_nat c')
     \<longleftrightarrow> (a < a' \<or> (a = a' \<and> (b < b' \<or> (b = b' \<and> c < c'))))"
  using assms by (simp add: word_less_nat_alt unat_V) arith

lemma V_eq_iff:
  assumes "a < 256" "b < 256" "c < 256" "a' < 256" "b' < 256" "c' < 256"
  shows "V (of_nat a) (of_nat b) (of_nat c) = V (of_nat a') (of_nat b') (of_nat c')
     \<longleftrightarrow> a = a' \<and> b = b' \<and> c = c'"
proof -
  let ?x = "V (of_nat a) (of_nat b) (of_nat c)" and ?y = "V (of_nat a') (of_nat b') (of_nat c')"
  have "?x = ?y \<longleftrightarrow> \<not> ?x < ?y \<and> \<not> ?y < ?x" by auto
  also have "\<dots> \<longleftrightarrow> a = a' \<and> b = b' \<and> c = c'"
    unfolding V_less_iff [OF assms] V_less_iff [OF assms(4-6) assms(1-3)] by auto
  finally show ?thesis .
qed

section \<open>Facts about scanning decimal numbers\<close>

lemma digit_char:
  "d < 10 \<Longrightarrow> c_isdigit (char_of (48 + d)) \<and> (of_char (char_of (48 + d)) :: nat) = 48 + d"
  by (simp add: c_isdigit_def)

lemma digits_of_digits: "digits_of n \<noteq> [] \<and> (\<forall>ch \<in> set (digits_of n). c_isdigit ch)"
proof (induction n rule: digits_of.induct)
  case (1 n)
  show ?case
  proof (cases "n < 10")
    case True
    then show ?thesis by (simp add: digits_of.simps [of n] digit_char)
  next
    case False
    then have "c_isdigit (char_of (48 + n mod 10))" by (simp add: digit_char)
    with False 1 show ?thesis by (simp add: digits_of.simps [of n])
  qed
qed

lemma dec_value_snoc: "dec_value acc (xs @ [d]) = 10 * dec_value acc xs + (of_char d - 48)"
  by (induction xs arbitrary: acc) simp_all

lemma dec_value_digits_of: "dec_value 0 (digits_of n) = n"
proof (induction n rule: digits_of.induct)
  case (1 n)
  show ?case
  proof (cases "n < 10")
    case True
    then show ?thesis by (simp add: digits_of.simps [of n] digit_char)
  next
    case False
    then have "dec_value 0 (digits_of (n div 10)) = n div 10" using 1 by simp
    then show ?thesis using False by (simp add: digits_of.simps [of n] dec_value_snoc digit_char)
  qed
qed

lemma digit_not_sign_or_space:
  "c_isdigit ch \<Longrightarrow> ch \<noteq> CHR ''+'' \<and> ch \<noteq> CHR ''-'' \<and> \<not> c_isspace ch"
  by (auto simp: c_isdigit_def c_isspace_def)

lemma scan_u_digits:
  assumes "rest = [] \<or> \<not> c_isdigit (hd rest)"
  shows "scan_u (digits_of n @ rest) = Some (of_nat n, rest)"
proof -
  obtain d ds where ds: "digits_of n = d # ds"
    using digits_of_digits [of n] by (cases "digits_of n") auto
  have all: "\<forall>ch \<in> set (digits_of n). c_isdigit ch" using digits_of_digits by blast
  then have d: "c_isdigit d" using ds by simp
  have tw: "takeWhile c_isdigit (digits_of n @ rest) = digits_of n"
    using all assms by (cases rest) (simp_all add: takeWhile_append2)
  have dw: "dropWhile c_isdigit (digits_of n @ rest) = rest"
    using all assms by (cases rest) (simp_all add: dropWhile_append2)
  show ?thesis
    using digit_not_sign_or_space [OF d] tw dw dec_value_digits_of [of n] ds
    by (simp add: scan_u_def Let_def)
qed

lemma skip_space_digits: "dropWhile c_isspace (digits_of n @ rest) = digits_of n @ rest"
proof -
  obtain d ds where ds: "digits_of n = d # ds"
    using digits_of_digits [of n] by (cases "digits_of n") auto
  then have "c_isdigit d" using digits_of_digits [of n] by simp
  then show ?thesis using ds digit_not_sign_or_space by simp
qed

lemma sscanf_run_u_digits:
  assumes "rest = [] \<or> \<not> c_isdigit (hd rest)"
  shows "sscanf_run (Fmt_u # fmt) (digits_of n @ rest) done =
         sscanf_run fmt rest (done @ [Conv_u (of_nat n)])"
proof -
  have "digits_of n \<noteq> []" using digits_of_digits [of n] by simp
  then show ?thesis
    by (simp add: skip_space_digits scan_u_digits [OF assms])
qed

lemma sscanf_version_string:
  "sscanf (version_string a b c) fmt_new =
     (3, [Conv_u (of_nat a), Conv_u (of_nat b), Conv_u (of_nat c)])"
proof -
  have nd: "\<not> c_isdigit CHR ''.''" by (simp add: c_isdigit_def)
  have "sscanf (version_string a b c) fmt_new =
        sscanf_run [Fmt_lit CHR ''.'', Fmt_u, Fmt_lit CHR ''.'', Fmt_u, Fmt_c, Fmt_c]
          (''.'' @ digits_of b @ ''.'' @ digits_of c) ([] @ [Conv_u (of_nat a)])"
    unfolding sscanf_def fmt_new_def version_string_def
    by (rule sscanf_run_u_digits) (simp add: nd)
  also have "\<dots> = sscanf_run (Fmt_u # [Fmt_lit CHR ''.'', Fmt_u, Fmt_c, Fmt_c])
          (digits_of b @ ''.'' @ digits_of c) [Conv_u (of_nat a)]"
    by simp
  also have "\<dots> = sscanf_run [Fmt_lit CHR ''.'', Fmt_u, Fmt_c, Fmt_c]
          (''.'' @ digits_of c) ([Conv_u (of_nat a)] @ [Conv_u (of_nat b)])"
    by (rule sscanf_run_u_digits) (simp add: nd)
  also have "\<dots> = sscanf_run (Fmt_u # [Fmt_c, Fmt_c]) (digits_of c @ [])
          [Conv_u (of_nat a), Conv_u (of_nat b)]"
    by simp
  also have "\<dots> = sscanf_run [Fmt_c, Fmt_c] []
          ([Conv_u (of_nat a), Conv_u (of_nat b)] @ [Conv_u (of_nat c)])"
    by (rule sscanf_run_u_digits) simp
  also have "\<dots> = (3, [Conv_u (of_nat a), Conv_u (of_nat b), Conv_u (of_nat c)])"
    by (simp add: scan_stop_def)
  finally show ?thesis .
qed

lemma decode_version_string:
  "tor_decode_libevent_version (version_string a b c) = V (of_nat a) (of_nat b) (of_nat c)"
  by (simp add: tor_decode_libevent_version_def sscanf_version_string new_format_ok_def out_u_def)

section \<open>Facts about the two acceptance tests\<close>

lemma old_scan_three:
  "sscanf v fmt_old = (3, cs) \<Longrightarrow> \<exists>a b ch. cs = [Conv_u a, Conv_u b, Conv_c ch]"
  by (auto simp: sscanf_def fmt_old_def scan_stop_def Let_def
           split: option.splits list.splits if_splits prod.splits)

lemma unparseable_decodes_other:
  assumes "unparseable v"
  shows "tor_decode_libevent_version v = LE_OTHER"
proof -
  obtain f1 cs1 where s1: "sscanf v fmt_new = (f1, cs1)" by (cases "sscanf v fmt_new")
  obtain f2 cs2 where s2: "sscanf v fmt_old = (f2, cs2)" by (cases "sscanf v fmt_old")
  have n1: "\<not> new_format_ok f1 (out_c cs1 3 None) (out_c cs1 4 None)"
    using assms s1 by (simp add: unparseable_def new_format_accepts_def)
  have n2: "\<not> (f2 = 3 \<and> TOR_ISALPHA (the (out_c cs2 2 None)))" "f2 \<noteq> 2"
    using assms s2 by (simp_all add: unparseable_def old_format_accepts_def)
  have same: "f2 = 3 \<Longrightarrow> out_c cs2 2 (out_c cs1 3 None) = out_c cs2 2 None"
    using old_scan_three [of v cs2] s2 by (auto simp: out_c_def)
  show ?thesis
  proof (cases "f2 = 3")
    case True
    then show ?thesis
      using n1 n2 same by (simp add: tor_decode_libevent_version_def s1 s2)
  next
    case False
    then show ?thesis
      using n1 n2 by (simp add: tor_decode_libevent_version_def s1 s2)
  qed
qed

section \<open>The version codec\<close>

text \<open>
  C6. The decoder maps \<^verbatim>\<open>"1.4.11-stable"\<close> to (1,4,11), \<^verbatim>\<open>"1.4.14b-stable"\<close> to
  (1,4,14), \<^verbatim>\<open>"1.3e"\<close> to (1,3,5), \<^verbatim>\<open>"1.1"\<close> to (1,1,0), \<^verbatim>\<open>"2.0.1"\<close> to (2,0,1)
  and \<^verbatim>\<open>"garbage"\<close> to the sentinel \<open>LE_OTHER\<close>; a trailing letter of the old format
  becomes the patch ordinal, \<^verbatim>\<open>a\<close> to 1 and \<^verbatim>\<open>b\<close> to 2. The decoder is a function of
  its argument alone.
\<close>

theorem decode_documented_versions:
  "tor_decode_libevent_version ''1.4.11-stable'' = V 1 4 11 \<and>
   tor_decode_libevent_version ''1.4.14b-stable'' = V 1 4 14 \<and>
   tor_decode_libevent_version ''1.3e'' = V 1 3 5 \<and>
   tor_decode_libevent_version ''1.1'' = V 1 1 0 \<and>
   tor_decode_libevent_version ''2.0.1'' = V 2 0 1 \<and>
   tor_decode_libevent_version ''garbage'' = LE_OTHER \<and>
   tor_decode_libevent_version ''1.0a'' = V 1 0 1 \<and>
   tor_decode_libevent_version ''1.0b'' = V 1 0 2 \<and>
   V_OLD major minor CHR ''a'' = V major minor 1 \<and>
   V_OLD major minor CHR ''b'' = V major minor 2"
proof -
  have 1: "tor_decode_libevent_version ''1.4.11-stable'' = V 1 4 11" by code_simp
  have 2: "tor_decode_libevent_version ''1.4.14b-stable'' = V 1 4 14" by code_simp
  have 3: "tor_decode_libevent_version ''1.3e'' = V 1 3 5" by code_simp
  have 4: "tor_decode_libevent_version ''1.1'' = V 1 1 0" by code_simp
  have 5: "tor_decode_libevent_version ''2.0.1'' = V 2 0 1" by code_simp
  have 6: "tor_decode_libevent_version ''garbage'' = LE_OTHER" by code_simp
  have 7: "tor_decode_libevent_version ''1.0a'' = V 1 0 1" by code_simp
  have 8: "tor_decode_libevent_version ''1.0b'' = V 1 0 2" by code_simp
  have 9: "V_OLD major minor CHR ''a'' = V major minor 1" by (simp add: V_OLD_def)
  have 10: "V_OLD major minor CHR ''b'' = V major minor 2" by (simp add: V_OLD_def)
  show ?thesis using 1 2 3 4 5 6 7 8 9 10 by blast
qed

text \<open>
  C1, as amended. A string that passes neither acceptance test decodes to
  \<open>LE_OTHER\<close>. The sentinel is the encoding of the triple (0,0,99): it is what the
  string \<^verbatim>\<open>"0.0.99"\<close> decodes to, and it differs from the decoded value of every
  other triple of byte-sized components. It is strictly below the decoded values of
  1.0e, 1.1b and 1.1.0 and below every threshold that \<open>tor_check_libevent_version\<close>
  compares with.
\<close>

theorem sentinel_below_thresholds:
  assumes "unparseable v"
  shows "tor_decode_libevent_version v = LE_OTHER \<and>
         LE_OTHER = V 0 0 99 \<and>
         tor_decode_libevent_version ''0.0.99'' = LE_OTHER \<and>
         LE_OTHER < tor_decode_libevent_version ''1.0e'' \<and>
         LE_OTHER < tor_decode_libevent_version ''1.1b'' \<and>
         LE_OTHER < tor_decode_libevent_version ''1.1.0'' \<and>
         LE_OTHER < V_OLD 1 0 CHR ''e'' \<and> LE_OTHER < V_OLD 1 1 CHR ''b'' \<and>
         LE_OTHER < V 1 1 0 \<and> LE_OTHER < V_OLD 1 3 CHR ''b'' \<and>
         (a < 256 \<and> b < 256 \<and> c < 256 \<longrightarrow>
            (tor_decode_libevent_version (version_string a b c) = LE_OTHER
               \<longleftrightarrow> (a, b, c) = (0, 0, 99)))"
proof -
  have 6: "tor_decode_libevent_version (version_string a b c) = LE_OTHER
             \<longleftrightarrow> (a, b, c) = (0, 0, 99)" if "a < 256" "b < 256" "c < 256"
  proof -
    have "LE_OTHER = V (of_nat 0) (of_nat 0) (of_nat 99)" by (simp add: LE_OTHER_def)
    then show ?thesis
      using V_eq_iff [OF that, of 0 0 99] by (simp add: decode_version_string)
  qed
  have 1: "tor_decode_libevent_version ''0.0.99'' = LE_OTHER" by code_simp
  have 2: "LE_OTHER < tor_decode_libevent_version ''1.0e''" by code_simp
  have 3: "LE_OTHER < tor_decode_libevent_version ''1.1b''" by code_simp
  have 4: "LE_OTHER < tor_decode_libevent_version ''1.1.0''" by code_simp
  have 5: "LE_OTHER < V_OLD 1 0 CHR ''e''" "LE_OTHER < V_OLD 1 1 CHR ''b''"
    "LE_OTHER < V 1 1 0" "LE_OTHER < V_OLD 1 3 CHR ''b''"
    by (simp_all add: LE_OTHER_def V_OLD_def V_def)
  have 7: "LE_OTHER = V 0 0 99" by (simp add: LE_OTHER_def)
  show ?thesis using unparseable_decodes_other [OF assms] 1 2 3 4 5 6 7 by blast
qed

text \<open>The amended statement at the string \<^verbatim>\<open>"garbage"\<close>.\<close>

theorem sentinel_below_thresholds_witness:
  "unparseable ''garbage'' \<and> tor_decode_libevent_version ''garbage'' = LE_OTHER \<and>
   LE_OTHER < V 1 1 0 \<and>
   (1::nat) < 256 \<and> (0::nat) < 256 \<and>
   tor_decode_libevent_version (version_string 1 1 0) \<noteq> LE_OTHER"
proof -
  have h: "unparseable ''garbage''" by code_simp
  have b: "(1::nat) < 256" "(0::nat) < 256" by simp_all
  have n: "((1::nat), (1::nat), (0::nat)) \<noteq> (0, 0, 99)" by simp
  from sentinel_below_thresholds [OF h, of 1 1 0] h b n show ?thesis by blast
qed

text \<open>
  C1 as it was stated fails: the sentinel equals the decoded value of the string
  \<^verbatim>\<open>"0.0.99"\<close>, and it is not above the decoded value of any of 1.0e, 1.1b, 1.1.0.
\<close>

theorem sentinel_not_above_thresholds:
  "tor_decode_libevent_version ''0.0.99'' = LE_OTHER \<and>
   \<not> tor_decode_libevent_version ''1.0e'' < LE_OTHER \<and>
   \<not> tor_decode_libevent_version ''1.1b'' < LE_OTHER \<and>
   \<not> tor_decode_libevent_version ''1.1.0'' < LE_OTHER"
proof -
  have 1: "tor_decode_libevent_version ''0.0.99'' = LE_OTHER" by code_simp
  have 2: "\<not> tor_decode_libevent_version ''1.0e'' < LE_OTHER" by code_simp
  have 3: "\<not> tor_decode_libevent_version ''1.1b'' < LE_OTHER" by code_simp
  have 4: "\<not> tor_decode_libevent_version ''1.1.0'' < LE_OTHER" by code_simp
  show ?thesis using 1 2 3 4 by blast
qed

text \<open>
  C8, as amended. For version triples whose three components each fit a byte, the
  decoded value of \<^verbatim>\<open>a.b.c\<close> is below that of \<^verbatim>\<open>a'.b'.c'\<close> exactly when the first
  triple is earlier in version precedence, and the two are equal exactly when the
  triples are; so the order of the tags is the precedence order of such triples, for
  instance 1.3.9 before 1.4.0 before 2.0.1.
\<close>

theorem decode_order_on_byte_triples:
  assumes "a < 256" "b < 256" "c < 256" "a' < 256" "b' < 256" "c' < 256"
  shows "(tor_decode_libevent_version (version_string a b c)
            < tor_decode_libevent_version (version_string a' b' c')
          \<longleftrightarrow> earlier (a, b, c) (a', b', c')) \<and>
         (tor_decode_libevent_version (version_string a b c)
            = tor_decode_libevent_version (version_string a' b' c')
          \<longleftrightarrow> (a, b, c) = (a', b', c')) \<and>
         tor_decode_libevent_version ''1.3.9'' < tor_decode_libevent_version ''1.4.0'' \<and>
         tor_decode_libevent_version ''1.4.0'' < tor_decode_libevent_version ''2.0.1''"
proof -
  have lt: "tor_decode_libevent_version (version_string a b c)
            < tor_decode_libevent_version (version_string a' b' c')
          \<longleftrightarrow> earlier (a, b, c) (a', b', c')"
    using assms by (simp add: decode_version_string V_less_iff earlier_def)
  have eq: "tor_decode_libevent_version (version_string a b c)
            = tor_decode_libevent_version (version_string a' b' c')
          \<longleftrightarrow> (a, b, c) = (a', b', c')"
    using assms by (simp add: decode_version_string V_eq_iff)
  have 1: "tor_decode_libevent_version ''1.3.9'' < tor_decode_libevent_version ''1.4.0''"
    by code_simp
  have 2: "tor_decode_libevent_version ''1.4.0'' < tor_decode_libevent_version ''2.0.1''"
    by code_simp
  show ?thesis using lt eq 1 2 by blast
qed

text \<open>The amended statement at the triples (1,3,9) and (1,4,0).\<close>

theorem decode_order_on_byte_triples_witness:
  "version_string 1 3 9 = ''1.3.9'' \<and> version_string 1 4 0 = ''1.4.0'' \<and>
   earlier (1, 3, 9) (1, 4, 0) \<and>
   tor_decode_libevent_version (version_string 1 3 9)
     < tor_decode_libevent_version (version_string 1 4 0)"
proof -
  have s: "version_string 1 3 9 = ''1.3.9''" "version_string 1 4 0 = ''1.4.0''" by code_simp+
  have e: "earlier (1, 3, 9) (1, 4, 0)" by (simp add: earlier_def)
  have b: "(1::nat) < 256" "(3::nat) < 256" "(9::nat) < 256" "(4::nat) < 256" "(0::nat) < 256"
    by simp_all
  from decode_order_on_byte_triples [OF b(1) b(2) b(3) b(1) b(4) b(5)] e s
  show ?thesis by blast
qed

text \<open>
  C8 as it was stated fails for parseable inputs with a component of 256 or more:
  1.3.255 is earlier than 1.3.256, but the patch 256 shifted by 8 falls on the minor
  byte, and \<^verbatim>\<open>"1.3.256"\<close> decodes below \<^verbatim>\<open>"1.3.255"\<close>.
\<close>

theorem decode_order_fails_beyond_a_byte:
  "version_string 1 3 255 = ''1.3.255'' \<and> version_string 1 3 256 = ''1.3.256'' \<and>
   earlier (1, 3, 255) (1, 3, 256) \<and>
   \<not> tor_decode_libevent_version ''1.3.255'' < tor_decode_libevent_version ''1.3.256'' \<and>
   tor_decode_libevent_version ''1.3.256'' < tor_decode_libevent_version ''1.3.255''"
proof -
  have s: "version_string 1 3 255 = ''1.3.255''" "version_string 1 3 256 = ''1.3.256''"
    by code_simp+
  have e: "earlier (1, 3, 255) (1, 3, 256)" by (simp add: earlier_def)
  have d: "tor_decode_libevent_version ''1.3.256'' < tor_decode_libevent_version ''1.3.255''"
    by code_simp
  have n: "\<not> tor_decode_libevent_version ''1.3.255'' < tor_decode_libevent_version ''1.3.256''"
    by code_simp
  show ?thesis using s e d n by blast
qed

section \<open>The header and run-time version check\<close>

lemma advisory_of_check:
  "advisory_of (tor_check_libevent_header_compatibility h r) =
     (if h = r then No_advisory
      else if le_versions_compatibility (tor_decode_libevent_version h)
              \<noteq> le_versions_compatibility (tor_decode_libevent_version r)
      then High_severity else Low_severity)"
  by (simp add: tor_check_libevent_header_compatibility_def advisory_of_def Let_def)

lemma era_other_iff: "le_versions_compatibility v = 0 \<longleftrightarrow> v = LE_OTHER"
  by (simp add: le_versions_compatibility_def)

lemma era_eq_spec_era: "le_versions_compatibility v = (if v = LE_OTHER then 0 else spec_era v)"
  by (simp add: le_versions_compatibility_def spec_era_def)

lemma spec_era_mono: "v \<le> w \<Longrightarrow> spec_era v \<le> spec_era w"
  by (auto simp add: spec_era_def)

lemma spec_era_range: "1 \<le> spec_era v \<and> spec_era v \<le> 5"
  by (simp add: spec_era_def)

text \<open>
  C7, as amended. Identical strings give no advisory. Otherwise both strings are
  decoded and bucketed by \<open>le_versions_compatibility\<close>, which maps the sentinel
  \<open>LE_OTHER\<close> to bucket 0 and every other tag to the step function with boundaries
  1.0c, 1.4.0, 1.4.99 and 2.0.1 (buckets 1 to 5, monotonic); differing buckets give
  the high-severity advisory, equal buckets the low-severity one.
\<close>

theorem skew_check_buckets:
  "advisory_of (tor_check_libevent_header_compatibility h r) =
     (if h = r then No_advisory
      else if le_versions_compatibility (tor_decode_libevent_version h)
              \<noteq> le_versions_compatibility (tor_decode_libevent_version r)
      then High_severity else Low_severity) \<and>
   le_versions_compatibility v = (if v = LE_OTHER then 0 else spec_era v) \<and>
   1 \<le> spec_era v \<and> spec_era v \<le> 5 \<and>
   (v \<le> w \<longrightarrow> spec_era v \<le> spec_era w)"
  using advisory_of_check [of h r] era_eq_spec_era [of v] spec_era_range [of v]
    spec_era_mono [of v w]
  by blast

text \<open>
  The amended statement at 1.4.11-stable against 1.4.13-stable (same bucket), 1.3e
  against 1.4.13-stable (different buckets) and 1.3e against itself.
\<close>

theorem skew_check_buckets_witness:
  "V 1 3 9 \<le> V 1 4 0 \<and> spec_era (V 1 3 9) \<le> spec_era (V 1 4 0) \<and>
   advisory_of (tor_check_libevent_header_compatibility ''1.4.11-stable'' ''1.4.13-stable'')
     = Low_severity \<and>
   advisory_of (tor_check_libevent_header_compatibility ''1.3e'' ''1.4.13-stable'')
     = High_severity \<and>
   advisory_of (tor_check_libevent_header_compatibility ''1.3e'' ''1.3e'') = No_advisory"
proof -
  have le: "V 1 3 9 \<le> V 1 4 0" by (simp add: V_def)
  have d: "tor_decode_libevent_version ''1.4.11-stable'' = V 1 4 11"
     "tor_decode_libevent_version ''1.4.13-stable'' = V 1 4 13"
     "tor_decode_libevent_version ''1.3e'' = V 1 3 5" by code_simp+
  have e: "le_versions_compatibility (V 1 4 11) = 3" "le_versions_compatibility (V 1 4 13) = 3"
     "le_versions_compatibility (V 1 3 5) = 2"
    by (simp_all add: le_versions_compatibility_def V_def V_OLD_def LE_OTHER_def)
  have ne: "''1.4.11-stable'' \<noteq> ''1.4.13-stable''" "''1.3e'' \<noteq> ''1.4.13-stable''" by simp_all
  show ?thesis
    using skew_check_buckets [of "''1.4.11-stable''" "''1.4.13-stable''" "V 1 3 9" "V 1 4 0"]
      skew_check_buckets [of "''1.3e''" "''1.4.13-stable''" "V 1 3 9" "V 1 4 0"]
      skew_check_buckets [of "''1.3e''" "''1.3e''" "V 1 3 9" "V 1 4 0"]
      le d e ne
    by simp
qed

text \<open>
  C7 as it was stated fails: with the five-bucket step function alone,
  \<^verbatim>\<open>"garbage"\<close> and \<^verbatim>\<open>"1.0"\<close> fall into the same bucket, yet the check gives the
  high-severity advisory; and the bucket function of the code is not monotonic, since
  0.0.98 decodes below 0.0.99 but has the larger bucket.
\<close>

theorem skew_check_not_the_five_era_function:
  "''garbage'' \<noteq> ''1.0'' \<and>
   spec_era (tor_decode_libevent_version ''garbage'')
     = spec_era (tor_decode_libevent_version ''1.0'') \<and>
   advisory_of (tor_check_libevent_header_compatibility ''garbage'' ''1.0'') = High_severity \<and>
   tor_decode_libevent_version ''0.0.98'' < tor_decode_libevent_version ''0.0.99'' \<and>
   le_versions_compatibility (tor_decode_libevent_version ''0.0.99'')
     < le_versions_compatibility (tor_decode_libevent_version ''0.0.98'')"
proof -
  have 1: "''garbage'' \<noteq> ''1.0''" by simp
  have 2: "spec_era (tor_decode_libevent_version ''garbage'')
             = spec_era (tor_decode_libevent_version ''1.0'')" by code_simp
  have 3: "advisory_of (tor_check_libevent_header_compatibility ''garbage'' ''1.0'')
             = High_severity" by code_simp
  have 4: "tor_decode_libevent_version ''0.0.98'' < tor_decode_libevent_version ''0.0.99''"
    by code_simp
  have 5: "le_versions_compatibility (tor_decode_libevent_version ''0.0.99'')
     < le_versions_compatibility (tor_decode_libevent_version ''0.0.98'')" by code_simp
  show ?thesis using 1 2 3 4 5 by blast
qed

text \<open>
  C4, as amended. For two strings that differ, at least one of them unparseable: the
  unparseable one decodes to \<open>LE_OTHER\<close>, whose bucket 0 is the bucket of no other
  tag; the advisory is the high-severity one when the two decoded tags differ (one
  string is unparseable, the other decodes to something else) and the low-severity one
  when both decode to \<open>LE_OTHER\<close>. The check returns its log records in every case.
\<close>

theorem skew_check_with_sentinel:
  assumes "h \<noteq> r" and "unparseable h \<or> unparseable r"
  shows "(tor_decode_libevent_version h = LE_OTHER \<or> tor_decode_libevent_version r = LE_OTHER) \<and>
         advisory_of (tor_check_libevent_header_compatibility h r) =
           (if tor_decode_libevent_version h = tor_decode_libevent_version r
            then Low_severity else High_severity) \<and>
         (le_versions_compatibility v = 0 \<longleftrightarrow> v = LE_OTHER)"
proof -
  have other: "tor_decode_libevent_version h = LE_OTHER \<or> tor_decode_libevent_version r = LE_OTHER"
    using assms(2) unparseable_decodes_other by blast
  have "advisory_of (tor_check_libevent_header_compatibility h r) =
           (if tor_decode_libevent_version h = tor_decode_libevent_version r
            then Low_severity else High_severity)"
  proof (cases "tor_decode_libevent_version h = tor_decode_libevent_version r")
    case True
    then show ?thesis using assms(1) by (simp add: advisory_of_check)
  next
    case False
    have zero: "le_versions_compatibility LE_OTHER = 0" by (simp add: era_other_iff)
    have "le_versions_compatibility (tor_decode_libevent_version h)
            \<noteq> le_versions_compatibility (tor_decode_libevent_version r)"
      using other False zero era_other_iff by metis
    then show ?thesis using assms(1) False by (simp add: advisory_of_check)
  qed
  then show ?thesis using other era_other_iff [of v] by blast
qed

text \<open>The amended statement at \<^verbatim>\<open>"garbage"\<close> against \<^verbatim>\<open>"1.4.11-stable"\<close>.\<close>

theorem skew_check_with_sentinel_witness:
  "''garbage'' \<noteq> ''1.4.11-stable'' \<and> unparseable ''garbage'' \<and>
   advisory_of (tor_check_libevent_header_compatibility ''garbage'' ''1.4.11-stable'')
     = High_severity"
proof -
  have ne: "''garbage'' \<noteq> ''1.4.11-stable''" by simp
  have u: "unparseable ''garbage''" by code_simp
  have d: "tor_decode_libevent_version ''garbage'' \<noteq> tor_decode_libevent_version ''1.4.11-stable''"
    by code_simp
  from skew_check_with_sentinel [OF ne disjI1 [OF u]] d u ne show ?thesis by auto
qed

text \<open>
  C4 as it was stated fails when both strings are unparseable: both fall into bucket
  0, the buckets are equal, and the check logs the low-severity pair of records.
\<close>

theorem both_unparseable_is_low_severity:
  "''garbage'' \<noteq> ''junk'' \<and> unparseable ''garbage'' \<and> unparseable ''junk'' \<and>
   advisory_of (tor_check_libevent_header_compatibility ''garbage'' ''junk'') = Low_severity \<and>
   tor_check_libevent_header_compatibility ''garbage'' ''junk'' =
     [Log LOG_NOTICE LD_GENERAL (Compiled_with_headers ''garbage'' ''junk''),
      Log LOG_INFO LD_GENERAL Think_binary_compatible]"
proof -
  have 1: "''garbage'' \<noteq> ''junk''" by simp
  have 2: "unparseable ''garbage''" "unparseable ''junk''" by code_simp+
  have 3: "advisory_of (tor_check_libevent_header_compatibility ''garbage'' ''junk'')
             = Low_severity" by code_simp
  have 4: "tor_check_libevent_header_compatibility ''garbage'' ''junk'' =
     [Log LOG_NOTICE LD_GENERAL (Compiled_with_headers ''garbage'' ''junk''),
      Log LOG_INFO LD_GENERAL Think_binary_compatible]" by code_simp
  show ?thesis using 1 2 3 4 by blast
qed

section \<open>The known-bug check\<close>

lemma surfaced_report:
  "surfaced (fst (report_badness f server m v os)) =
     (if most_severe f = Slow \<and> \<not> server then No_bug else most_severe f)"
  by (simp add: report_badness_def most_severe_def)

lemma check_version_unfold:
  "tor_check_libevent_version plat api m server =
     report_badness (check_flags plat api m server) server m (fst (tor_get_libevent_version api))
       (snd (platform_flags plat server (snd (tor_get_libevent_version api))
               (method_flags m (snd (tor_get_libevent_version api)))))"
  by (simp add: tor_check_libevent_version_def check_flags_def case_prod_beta)

lemma thread_unsafe_flag:
  assumes "server" "plat \<noteq> Other_platform"
    and "snd (tor_get_libevent_version api) < V_OLD 1 3 CHR ''b''"
  shows "thread_unsafe (check_flags plat api m server)"
  using assms
  by (cases plat) (simp_all add: check_flags_def platform_flags_def case_prod_beta)

lemma slow_flag:
  assumes "m = ''poll'' \<or> m = ''select''" "snd (tor_get_libevent_version api) < V 1 1 0"
  shows "slow (check_flags plat api m server)"
  using assms
  by (cases plat)
     (auto simp add: check_flags_def platform_flags_def method_flags_def no_flags_def Let_def
        case_prod_beta)

lemma poll_flags:
  assumes "snd (tor_get_libevent_version api) < V_OLD 1 0 CHR ''e''"
  shows "buggy (check_flags plat api ''poll'' server) \<and> slow (check_flags plat api ''poll'' server)"
proof -
  have "V_OLD 1 0 CHR ''e'' < V 1 1 0" by (simp add: V_OLD_def V_def)
  then have "snd (tor_get_libevent_version api) < V 1 1 0" using assms by simp
  then show ?thesis using assms
    by (cases plat)
       (simp_all add: check_flags_def platform_flags_def method_flags_def no_flags_def Let_def
          case_prod_beta)
qed

text \<open>
  C5, as amended. Every flag is computed before the verdict is chosen (with
  \<^verbatim>\<open>poll\<close> below 1.0e both buggy and slow are set), and the warning surfaced is the
  most severe flagged condition in the order thread-unsafe, buggy, iffy, slow, none,
  except that slow is surfaced only when running as a server: a client whose most
  severe condition is slow gets no warning. In particular a server on a BSD or on
  Mac OS X with a version below 1.3b and a \<^verbatim>\<open>poll\<close> or \<^verbatim>\<open>select\<close> backend below
  1.1.0 has both the slow and the thread-unsafe flag set and is reported thread-unsafe.
\<close>

theorem most_severe_is_surfaced:
  assumes "server" "plat \<noteq> Other_platform"
    and "snd (tor_get_libevent_version api) < V_OLD 1 3 CHR ''b''"
    and "m = ''poll'' \<or> m = ''select''"
    and "snd (tor_get_libevent_version api) < V 1 1 0"
  shows "slow (check_flags plat api m server) \<and>
         thread_unsafe (check_flags plat api m server) \<and>
         surfaced (fst (tor_check_libevent_version plat api m server)) = Thread_unsafe \<and>
         snd (tor_check_libevent_version plat api m server) = Some ''BROKEN'' \<and>
         surfaced (fst (tor_check_libevent_version plat' api' m' server')) =
           (if most_severe (check_flags plat' api' m' server') = Slow \<and> \<not> server' then No_bug
            else most_severe (check_flags plat' api' m' server')) \<and>
         (snd (tor_get_libevent_version api') < V_OLD 1 0 CHR ''e'' \<longrightarrow>
            buggy (check_flags plat' api' ''poll'' server') \<and>
            slow (check_flags plat' api' ''poll'' server'))"
proof -
  have t: "thread_unsafe (check_flags plat api m server)"
    using assms by (simp add: thread_unsafe_flag)
  have s: "slow (check_flags plat api m server)" using assms by (simp add: slow_flag)
  have g: "surfaced (fst (tor_check_libevent_version p a x y)) =
           (if most_severe (check_flags p a x y) = Slow \<and> \<not> y then No_bug
            else most_severe (check_flags p a x y))" for p a x y
    by (simp only: check_version_unfold surfaced_report)
  have b: "snd (tor_check_libevent_version plat api m server) = Some ''BROKEN''"
    using t by (simp add: check_version_unfold report_badness_def)
  have "surfaced (fst (tor_check_libevent_version plat api m server)) = Thread_unsafe"
    using t by (simp add: g most_severe_def)
  then show ?thesis using t s g b poll_flags by blast
qed

text \<open>
  The amended statement for a server on a BSD with Libevent 1.0 and the
  \<^verbatim>\<open>select\<close> backend.
\<close>

theorem most_severe_is_surfaced_witness:
  "snd (tor_get_libevent_version (Have_version_number ''1.0'' (V 1 0 0))) < V_OLD 1 3 CHR ''b'' \<and>
   snd (tor_get_libevent_version (Have_version_number ''1.0'' (V 1 0 0))) < V 1 1 0 \<and>
   snd (tor_get_libevent_version (Have_version_number ''1.0'' (V 1 0 0))) < V_OLD 1 0 CHR ''e'' \<and>
   slow (check_flags BSD_variant (Have_version_number ''1.0'' (V 1 0 0)) ''select'' True) \<and>
   surfaced (fst (tor_check_libevent_version BSD_variant
                    (Have_version_number ''1.0'' (V 1 0 0)) ''select'' True)) = Thread_unsafe \<and>
   buggy (check_flags BSD_variant (Have_version_number ''1.0'' (V 1 0 0)) ''poll'' True) \<and>
   slow (check_flags BSD_variant (Have_version_number ''1.0'' (V 1 0 0)) ''poll'' True)"
proof -
  have v: "snd (tor_get_libevent_version (Have_version_number ''1.0'' (V 1 0 0))) < V_OLD 1 3 CHR ''b''"
    "snd (tor_get_libevent_version (Have_version_number ''1.0'' (V 1 0 0))) < V 1 1 0"
    "snd (tor_get_libevent_version (Have_version_number ''1.0'' (V 1 0 0))) < V_OLD 1 0 CHR ''e''"
    by (simp_all add: V_def V_OLD_def)
  have p: "BSD_variant \<noteq> Other_platform" by simp
  from most_severe_is_surfaced [OF TrueI p v(1) disjI2 [OF refl] v(2),
      of BSD_variant "Have_version_number ''1.0'' (V 1 0 0)" _ True] v
  show ?thesis by blast
qed

text \<open>
  C5 as it was stated fails for a client: with \<^verbatim>\<open>select\<close> and Libevent 1.0 the
  slow flag is the most severe condition flagged, and nothing is surfaced.
\<close>

theorem slow_client_is_not_surfaced:
  "slow (check_flags Other_platform (Have_version_number ''1.0'' (V 1 0 0)) ''select'' False) \<and>
   most_severe (check_flags Other_platform (Have_version_number ''1.0'' (V 1 0 0)) ''select'' False)
     = Slow \<and>
   surfaced (fst (tor_check_libevent_version Other_platform
                    (Have_version_number ''1.0'' (V 1 0 0)) ''select'' False)) = No_bug \<and>
   tor_check_libevent_version Other_platform (Have_version_number ''1.0'' (V 1 0 0)) ''select'' False
     = ([], None)"
  by (simp add: check_flags_def tor_check_libevent_version_def platform_flags_def
        method_flags_def no_flags_def most_severe_def report_badness_def V_def)

section \<open>The event base\<close>

text \<open>
  C2, as amended. \<open>tor_libevent_get_base\<close> never fails: it returns the global
  \<open>the_event_base\<close> as it is, which is NULL before \<open>tor_libevent_initialize\<close> and the
  base that was created after an initialization that returned.
\<close>

theorem get_base_returns_the_global:
  "tor_libevent_get_base st = Inr (the_event_base st) \<and>
   tor_libevent_get_base startup = Inr None \<and>
   (tor_libevent_initialize plat kq api new_base method startup = Inr st' \<longrightarrow>
      new_base \<noteq> None \<and> tor_libevent_get_base st' = Inr new_base)"
  by (auto simp add: tor_libevent_get_base_def startup_def tor_libevent_initialize_def Let_def
           split: if_splits)

text \<open>The amended statement for an initialization that creates the base at address 5.\<close>

theorem get_base_returns_the_global_witness:
  "tor_libevent_initialize Other_platform False (Have_version ''2.0.10-stable'') (Some 5)
     (Some ''epoll'') startup =
     Inr \<lparr>the_event_base = Some 5, environ = [],
          log_out = [Log LOG_NOTICE LD_GENERAL (Initialized_libevent ''2.0.10-stable'' ''epoll'')]\<rparr> \<and>
   tor_libevent_get_base
     \<lparr>the_event_base = Some 5, environ = [],
      log_out = [Log LOG_NOTICE LD_GENERAL (Initialized_libevent ''2.0.10-stable'' ''epoll'')]\<rparr>
     = Inr (Some 5)"
proof -
  have i: "tor_libevent_initialize Other_platform False (Have_version ''2.0.10-stable'') (Some 5)
     (Some ''epoll'') startup =
     Inr \<lparr>the_event_base = Some 5, environ = [],
          log_out = [Log LOG_NOTICE LD_GENERAL (Initialized_libevent ''2.0.10-stable'' ''epoll'')]\<rparr>"
    by (simp add: tor_libevent_initialize_def startup_def)
  from get_base_returns_the_global [of _ Other_platform False "Have_version ''2.0.10-stable''"
      "Some 5" "Some ''epoll''"] i
  show ?thesis by blast
qed

text \<open>
  C2 as it was stated fails: before initialization the call returns the NULL base and
  no assertion fails.
\<close>

theorem get_base_before_initialize_returns_null:
  "tor_libevent_get_base startup = Inr None \<and>
   \<not> isl (tor_libevent_get_base startup)"
  by (simp add: tor_libevent_get_base_def startup_def)

section \<open>Periodic timers\<close>

lemma one_timer_world_eq:
  "timers one_timer_world 1 =
     Some \<lparr>timer_ev = Some 2, timer_cb = Some 3, timer_data = 42, timer_tv = tenth_second\<rparr> \<and>
   events one_timer_world 2 =
     Some \<lparr>ev_base = 7, ev_persist = False, ev_arg = 1, ev_pending = Some tenth_second\<rparr> \<and>
   trace one_timer_world = [Act_event_add 2 tenth_second]"
  by (simp add: one_timer_world_def periodic_timer_new_def empty_world_def tor_event_new_def
        tor_malloc_zero_def zero_timer_def event_add_def)

text \<open>
  C3, as amended. \<open>periodic_timer_free\<close> on NULL returns at once and leaves the store
  as it is, also when called twice. On a live timer it deletes and releases the event
  and releases the timer. A second call with the same non-null pointer is not a no-op:
  the timer it reads has been released.
\<close>

theorem timer_free_null_and_live:
  assumes "timers w p = Some t" "timer_ev t = Some e" "events w e = Some x"
  shows "periodic_timer_free w None = Inr w \<and>
         free_twice w None = Inr w \<and>
         periodic_timer_free w (Some p) =
           Inr (w\<lparr>events := (events w)(e := None), trace := trace w @ [Act_event_del e],
                  timers := (timers w)(p := None)\<rparr>) \<and>
         free_twice w (Some p) = Inl Invalid_access"
  using assms
  by (simp add: periodic_timer_free_def free_twice_def tor_event_free_def tor_free_def)

text \<open>The amended statement at the store with one timer.\<close>

theorem timer_free_null_and_live_witness:
  "free_twice one_timer_world (Some 1) = Inl Invalid_access \<and>
   periodic_timer_free one_timer_world None = Inr one_timer_world"
proof -
  note w = one_timer_world_eq
  from timer_free_null_and_live [of one_timer_world 1 _ 2] w show ?thesis by simp
qed

text \<open>
  C3 as it was stated fails: the first call on the timer at address 1 returns, the
  second call with the same pointer is an access to released memory, so freeing
  twice is not the same as freeing once.
\<close>

theorem double_free_is_not_a_no_op:
  "\<not> isl (periodic_timer_free one_timer_world (Some 1)) \<and>
   free_twice one_timer_world (Some 1) = Inl Invalid_access \<and>
   free_twice one_timer_world (Some 1) \<noteq> periodic_timer_free one_timer_world (Some 1)"
  using one_timer_world_eq
  by (auto simp add: periodic_timer_free_def free_twice_def tor_event_free_def tor_free_def)

text \<open>
  C9. Without \<^verbatim>\<open>HAVE_PERIODIC\<close>, a firing of a live timer first calls
  \<^verbatim>\<open>event_add\<close> on the timer's event with the stored interval and only then calls the
  user callback with the timer and the user data: the callback runs in a store where
  the event is pending again, and the trace has the registration before the call.
\<close>

theorem emulated_timer_reschedules_first:
  assumes "timers w p = Some t" "timer_ev t = Some e" "events w e = Some x" "timer_cb t = Some c"
  shows "periodic_timer_cb False user w p =
           user c p (timer_data t)
             (w\<lparr>events := (events w)(e \<mapsto> x\<lparr>ev_pending := Some (timer_tv t)\<rparr>),
                trace := trace w @ [Act_event_add e (timer_tv t), Act_callback c p (timer_data t)]\<rparr>)"
  using assms by (simp add: periodic_timer_cb_def event_add_def)

text \<open>The statement at the store with one timer and a callback that does nothing.\<close>

theorem emulated_timer_reschedules_first_witness:
  "periodic_timer_cb False (\<lambda>c p d w. Inr w) one_timer_world 1 =
     Inr (one_timer_world\<lparr>
            events := (events one_timer_world)(2 \<mapsto>
               \<lparr>ev_base = 7, ev_persist = False, ev_arg = 1, ev_pending = Some tenth_second\<rparr>),
            trace := [Act_event_add 2 tenth_second, Act_event_add 2 tenth_second,
                      Act_callback 3 1 42]\<rparr>)"
proof -
  note w = one_timer_world_eq
  from emulated_timer_reschedules_first [of one_timer_world 1 _ 2 _ 3 "\<lambda>c p d w. Inr w"] w
  show ?thesis by simp
qed

section \<open>The log callback\<close>

lemma callback_buf_eq:
  "callback_buf msg =
     (if length msg \<le> 1023
      then (if msg \<noteq> [] \<and> last msg = CHR 0x0A then butlast msg else msg)
      else take 1023 msg)"
proof (cases "length msg \<le> 1023")
  case True
  then have t: "take 1023 msg = msg" by simp
  show ?thesis
  proof (cases "msg = []")
    case True
    then show ?thesis by (simp add: callback_buf_def strlcpy_def)
  next
    case False
    then have "msg ! (length msg - 1) = last msg" by (simp add: last_conv_nth)
    then show ?thesis using True False t
      by (simp add: callback_buf_def strlcpy_def butlast_conv_take)
  qed
next
  case False
  then show ?thesis by (simp add: callback_buf_def strlcpy_def)
qed

text \<open>
  C10. A message that is not suppressed is forwarded as one log record whose text is
  the content of the 1024-byte buffer: for a message of at most 1023 bytes the message
  without one trailing newline, if it has one; for a longer message its first 1023
  bytes, with no newline removed. The text never exceeds 1023 bytes.
\<close>

theorem log_callback_buffer:
  assumes "\<not> suppressed needle msg"
  shows "map forwarded_text (libevent_logging_callback needle severity msg) = [callback_buf msg] \<and>
         callback_buf msg =
           (if length msg \<le> 1023
            then (if msg \<noteq> [] \<and> last msg = CHR 0x0A then butlast msg else msg)
            else take 1023 msg) \<and>
         length (callback_buf msg) \<le> 1023"
proof -
  have "map forwarded_text (libevent_logging_callback needle severity msg) = [callback_buf msg]"
    using assms by (simp add: libevent_logging_callback_def suppressed_def Let_def)
  moreover have "length (callback_buf msg) \<le> 1023" by (auto simp add: callback_buf_eq)
  ultimately show ?thesis using callback_buf_eq by blast
qed

text \<open>
  The statement at a short message that ends in a newline and at a message of 1030
  bytes and a newline.
\<close>

theorem log_callback_buffer_witness:
  "\<not> suppressed None (''ab'' @ [CHR 0x0A]) \<and>
   map forwarded_text (libevent_logging_callback None 1 (''ab'' @ [CHR 0x0A])) = [''ab''] \<and>
   \<not> suppressed (Some ''zz'') (replicate 1030 CHR ''x'' @ [CHR 0x0A]) \<and>
   map forwarded_text
     (libevent_logging_callback (Some ''zz'') 2 (replicate 1030 CHR ''x'' @ [CHR 0x0A]))
     = [replicate 1023 CHR ''x'']"
proof -
  have s1: "\<not> suppressed None (''ab'' @ [CHR 0x0A])" by (simp add: suppressed_def)
  have s2: "\<not> suppressed (Some ''zz'') (replicate 1030 CHR ''x'' @ [CHR 0x0A])"
    by code_simp
  from log_callback_buffer [OF s1, of 1] log_callback_buffer [OF s2, of 2] s1 s2
  show ?thesis by simp
qed

end
